theory Spec2Isabelle
  imports Main
begin

section \<open>JavaScript values, as far as lib/strategy.js observes them\<close>

text \<open>
  The strategy handles plain data: the options objects given by the application and the
  claim set that \<^verbatim>\<open>JSON.parse\<close> returns. A value is \<^verbatim>\<open>undefined\<close>, \<^verbatim>\<open>null\<close>,
  a boolean, a number, a string, an array or an object. An object is the list of its own
  properties in insertion order. The program tests numbers for truthiness and converts
  them to strings, and does nothing else with them, so a number is represented by its
  canonical text, the result of \<^verbatim>\<open>Number.prototype.toString\<close> (\<^verbatim>\<open>0\<close> and \<^verbatim>\<open>-0\<close> share
  the text \<^verbatim>\<open>0\<close>, and both are falsy). Functions, accessors and prototypes other than the
  built-in ones are outside the model.
\<close>

datatype jsval =
    Undefined
  | Null
  | Bool bool
  | Num string
  | Str string
  | Arr "jsval list"
  | Obj "(string \<times> jsval) list"

type_synonym object = "(string \<times> jsval) list"

datatype error = TypeError | SyntaxError | ReferenceError | RangeError

text \<open>Sequencing of steps that may throw: the first exception ends the block.\<close>

definition bind :: "error + 'a \<Rightarrow> ('a \<Rightarrow> error + 'b) \<Rightarrow> error + 'b" where
  "bind m f = (case m of Inl e \<Rightarrow> Inl e | Inr v \<Rightarrow> f v)"

text \<open>ToBoolean: the falsy values are undefined, null, false, 0, NaN and the empty string.\<close>

fun truthy :: "jsval \<Rightarrow> bool" where
  "truthy Undefined = False"
| "truthy Null = False"
| "truthy (Bool b) = b"
| "truthy (Num n) = (n \<noteq> ''0'' \<and> n \<noteq> ''NaN'')"
| "truthy (Str s) = (s \<noteq> [])"
| "truthy (Arr xs) = True"
| "truthy (Obj kvs) = True"

text \<open>
  Reading an own property of an object: a key that is absent reads as undefined. When a
  list holds a key twice the first entry is the property (an object never does).
\<close>

definition get_own :: "object \<Rightarrow> string \<Rightarrow> jsval" where
  "get_own kvs k = (case map_of kvs k of None \<Rightarrow> Undefined | Some v \<Rightarrow> v)"

text \<open>
  The expression \<^verbatim>\<open>v.k\<close>. On undefined and null it throws a TypeError. On a primitive
  or an array it reads the built-in prototype; none of the names that the program reads
  (\<^verbatim>\<open>domain_hint\<close>, \<^verbatim>\<open>login_hint\<close>, \<^verbatim>\<open>prompt\<close>, \<^verbatim>\<open>resource\<close>, \<^verbatim>\<open>oid\<close>, \<^verbatim>\<open>tid\<close>,
  \<^verbatim>\<open>unique_name\<close>, \<^verbatim>\<open>given_name\<close>, \<^verbatim>\<open>family_name\<close>, \<^verbatim>\<open>email\<close>) is a built-in
  property, so the result there is undefined.
\<close>

fun get_prop :: "jsval \<Rightarrow> string \<Rightarrow> error + jsval" where
  "get_prop Undefined k = Inl TypeError"
| "get_prop Null k = Inl TypeError"
| "get_prop (Obj kvs) k = Inr (get_own kvs k)"
| "get_prop v k = Inr Undefined"

text \<open>
  The assignment \<^verbatim>\<open>o.k = v\<close> on an object: an existing property keeps its place, a new
  one goes to the end.
\<close>

fun put :: "string \<Rightarrow> jsval \<Rightarrow> object \<Rightarrow> object" where
  "put k v [] = [(k, v)]"
| "put k v ((k', v') # kvs) = (if k = k' then (k, v) # kvs else (k', v') # put k v kvs)"

section \<open>Extra request parameters\<close>

text \<open>
  \<^verbatim>\<open>if(options.k) params.k = options.k;\<close> The property is read twice in the source;
  the values are plain data, so both reads give the same value.
\<close>

definition copy_if_truthy :: "jsval \<Rightarrow> string \<Rightarrow> object \<Rightarrow> error + object" where
  "copy_if_truthy options k params =
     bind (get_prop options k) (\<lambda>c.
       if truthy c then bind (get_prop options k) (\<lambda>v. Inr (put k v params))
       else Inr params)"

definition authorizationParams :: "jsval \<Rightarrow> error + object" where
  "authorizationParams options =
     bind (copy_if_truthy options ''domain_hint'' []) (\<lambda>params.
     bind (copy_if_truthy options ''login_hint'' params) (\<lambda>params.
     bind (copy_if_truthy options ''prompt'' params) (\<lambda>params.
     bind (copy_if_truthy options ''resource'' params) (\<lambda>params.
     Inr params))))"

definition tokenParams :: "jsval \<Rightarrow> error + object" where
  "tokenParams options =
     bind (copy_if_truthy options ''resource'' []) (\<lambda>params.
     Inr params)"

definition authorization_keys :: "string list" where
  "authorization_keys = [''domain_hint'', ''login_hint'', ''prompt'', ''resource'']"

section \<open>String conversion and concatenation\<close>

text \<open>
  ToString, as the \<^verbatim>\<open>+\<close> operator applies it to an operand when the other operand is
  a string. An array is joined with commas, its undefined and null elements giving the
  empty text. A plain object gives \<^verbatim>\<open>[object Object]\<close> through the inherited
  \<^verbatim>\<open>toString\<close>; when the object has an own property \<^verbatim>\<open>toString\<close>, which in plain
  data is not callable, neither \<^verbatim>\<open>valueOf\<close> nor \<^verbatim>\<open>toString\<close> gives a primitive and
  the conversion throws a TypeError.
\<close>

fun to_string :: "jsval \<Rightarrow> error + string"
  and join_elems :: "jsval list \<Rightarrow> error + string" where
  "to_string Undefined = Inr ''undefined''"
| "to_string Null = Inr ''null''"
| "to_string (Bool b) = Inr (if b then ''true'' else ''false'')"
| "to_string (Num n) = Inr n"
| "to_string (Str s) = Inr s"
| "to_string (Arr xs) = join_elems xs"
| "to_string (Obj kvs) =
     (case map_of kvs ''toString'' of
        None \<Rightarrow> Inr ''[object Object]''
      | Some f \<Rightarrow> Inl TypeError)"
| "join_elems [] = Inr []"
| "join_elems (x # xs) =
     bind (case x of Undefined \<Rightarrow> Inr [] | Null \<Rightarrow> Inr [] | _ \<Rightarrow> to_string x) (\<lambda>s.
       case xs of
         [] \<Rightarrow> Inr s
       | _ # _ \<Rightarrow> bind (join_elems xs) (\<lambda>r. Inr (s @ '','' @ r)))"

text \<open>\<^verbatim>\<open>s + v\<close> and \<^verbatim>\<open>v + s\<close> for a string \<^verbatim>\<open>s\<close>.\<close>

definition str_plus :: "string \<Rightarrow> jsval \<Rightarrow> error + string" where
  "str_plus s v = bind (to_string v) (\<lambda>t. Inr (s @ t))"

definition plus_str :: "jsval \<Rightarrow> string \<Rightarrow> error + string" where
  "plus_str v s = bind (to_string v) (\<lambda>t. Inr (t @ s))"

section \<open>The profile hook\<close>

text \<open>
  The runtime functions that \<^verbatim>\<open>userProfile\<close> calls are parameters of the model:
  \<^verbatim>\<open>new Buffer(s, 'base64')\<close> on a string, \<^verbatim>\<open>buffer.toString('utf-8')\<close> and
  \<^verbatim>\<open>JSON.parse\<close>. Each may throw.
\<close>

record platform =
  Buffer_base64 :: "string \<Rightarrow> error + nat list"
  toString_utf8 :: "nat list \<Rightarrow> error + string"
  JSON_parse :: "string \<Rightarrow> error + jsval"

record strategy =
  name :: string

text \<open>\<^verbatim>\<open>s.split(c)\<close> for a one-character separator: never empty.\<close>

fun split :: "char \<Rightarrow> string \<Rightarrow> string list" where
  "split c [] = [[]]"
| "split c (x # xs) =
     (if x = c then [] # split c xs
      else (case split c xs of
              [] \<Rightarrow> [[x]]
            | seg # segs \<Rightarrow> (x # seg) # segs))"

text \<open>\<^verbatim>\<open>segments[i]\<close>: undefined past the end.\<close>

definition index :: "string list \<Rightarrow> nat \<Rightarrow> jsval" where
  "index segs i = (if i < length segs then Str (segs ! i) else Undefined)"

text \<open>
  \<^verbatim>\<open>new Buffer(v, 'base64')\<close>: a first argument that is neither a number, a string nor
  an object is refused with a TypeError. The program passes a string or undefined.
\<close>

fun new_Buffer :: "platform \<Rightarrow> jsval \<Rightarrow> error + nat list" where
  "new_Buffer P (Str s) = Buffer_base64 P s"
| "new_Buffer P v = Inl TypeError"

text \<open>
  What happened during a call of \<^verbatim>\<open>userProfile\<close>: the invocations of the callback with
  their two arguments, the lines written to the console, and the exception that left the
  function, if any.
\<close>

record outcome =
  calls :: "(jsval \<times> jsval) list"
  logged :: "string list"
  thrown :: "error option"

text \<open>
  The statements of the try block before the callback (lines 152 to 166), on the
  profile built so far.
\<close>

definition userProfile_try :: "platform \<Rightarrow> string \<Rightarrow> object \<Rightarrow> error + object" where
  "userProfile_try P accessToken profile =
     (let tokenBase64 = index (split CHR ''.'' accessToken) 1 in
      bind (new_Buffer P tokenBase64) (\<lambda>tokenBinary.
      bind (toString_utf8 P tokenBinary) (\<lambda>tokenUTF8.
      let profile = put ''utf8'' (Str tokenUTF8) profile in
      bind (JSON_parse P tokenUTF8) (\<lambda>tokenJson.
      let profile = put ''json'' tokenJson profile in
      bind (get_prop tokenJson ''oid'') (\<lambda>oid.
      let profile = put ''id'' oid profile in
      bind (get_prop tokenJson ''tid'') (\<lambda>tid.
      let profile = put ''orgId'' tid profile in
      bind (get_prop tokenJson ''unique_name'') (\<lambda>unique_name.
      let profile = put ''username'' unique_name profile in
      bind (get_prop tokenJson ''given_name'') (\<lambda>given_name.
      bind (plus_str given_name '' '') (\<lambda>given_space.
      bind (get_prop tokenJson ''family_name'') (\<lambda>family_name.
      bind (str_plus given_space family_name) (\<lambda>full.
      let profile = put ''displayname'' (Str full) profile in
      bind (get_prop tokenJson ''family_name'') (\<lambda>familyName.
      bind (get_prop tokenJson ''given_name'') (\<lambda>givenName.
      let profile = put ''name'' (Obj [(''familyName'', familyName), (''givenName'', givenName)]) profile in
      bind (get_prop tokenJson ''email'') (\<lambda>email.
      let profile = put ''emails'' (Arr [email]) profile in
      Inr profile))))))))))))))"

text \<open>
  The catch block (lines 169 and 170): it writes the diagnostic line, then evaluates
  the arguments of \<^verbatim>\<open>done(ex, null)\<close>. The caught exception is bound to
  \<^verbatim>\<open>exception\<close>; no variable \<^verbatim>\<open>ex\<close> is declared, so reading it throws a
  ReferenceError before the callback is entered. The argument is the list of callback
  invocations made so far.
\<close>

definition userProfile_catch :: "(jsval \<times> jsval) list \<Rightarrow> outcome" where
  "userProfile_catch cs =
     \<lparr>calls = cs,
      logged = [''Unable to parse oauth2 token for user profile''],
      thrown = Some ReferenceError\<rparr>"

text \<open>
  \<^verbatim>\<open>userProfile(accessToken, done)\<close> on a strategy \<^verbatim>\<open>this\<close>. The callback is given
  by what it does to its caller: it returns (\<open>None\<close>) or throws. The call
  \<^verbatim>\<open>done(null, profile)\<close> is the last statement of the try block, so an exception of the
  callback is caught too.
\<close>

definition userProfile ::
  "platform \<Rightarrow> strategy \<Rightarrow> string \<Rightarrow> (jsval \<Rightarrow> jsval \<Rightarrow> error option) \<Rightarrow> outcome" where
  "userProfile P this accessToken done =
     (let profile = [(''provider'', Str (name this))] in
      case userProfile_try P accessToken profile of
        Inl exception \<Rightarrow> userProfile_catch []
      | Inr profile \<Rightarrow>
          (case done Null (Obj profile) of
             None \<Rightarrow> \<lparr>calls = [(Null, Obj profile)], logged = [], thrown = None\<rparr>
           | Some exception \<Rightarrow> userProfile_catch [(Null, Obj profile)]))"

text \<open>
  A runtime that decodes one payload segment (to the given bytes, text and parsed value)
  and nothing else: the concrete instances of the theorems below run on it.
\<close>

definition single_payload_runtime :: "string \<Rightarrow> nat list \<Rightarrow> string \<Rightarrow> jsval \<Rightarrow> platform" where
  "single_payload_runtime segment bytes text v =
     \<lparr>Buffer_base64 = (\<lambda>s. if s = segment then Inr bytes else Inr []),
      toString_utf8 = (\<lambda>b. if b = bytes then Inr text else Inr []),
      JSON_parse = (\<lambda>t. if t = text then Inr v else Inl SyntaxError)\<rparr>"

section \<open>The constructor\<close>

text \<open>
  The constructor writes to the object that its caller passed, so objects live in a
  store and the argument is an address (\<open>None\<close> for an argument that is missing,
  undefined or null). A new object gets the next free address.
\<close>

type_synonym store = "object list"

record construction =
  heap :: store
  options_ref :: nat
  created :: strategy

text \<open>
  \<^verbatim>\<open>options = options || {}\<close>. An address outside the store has no counterpart in a
  JavaScript program; the model refuses it.
\<close>

definition or_empty :: "store \<Rightarrow> nat option \<Rightarrow> (store \<times> nat) option" where
  "or_empty h options =
     (case options of
        None \<Rightarrow> Some (h @ [[]], length h)
      | Some a \<Rightarrow> if a < length h then Some (h, a) else None)"

text \<open>
  \<^verbatim>\<open>options.k = options.k || alt\<close> on the object at address \<open>a\<close>; the alternative
  is evaluated only when the current value is falsy, and may throw.
\<close>

definition assign_default ::
  "store \<Rightarrow> nat \<Rightarrow> string \<Rightarrow> (object \<Rightarrow> error + jsval) \<Rightarrow> error + store" where
  "assign_default h a k alt =
     (let current = get_own (h ! a) k in
      bind (if truthy current then Inr current else alt (h ! a)) (\<lambda>v.
      Inr (h[a := put k v (h ! a)])))"

text \<open>\<^verbatim>\<open>'https://login.windows.net/' + options.tenantID + path\<close>\<close>

definition derived_url :: "string \<Rightarrow> object \<Rightarrow> error + jsval" where
  "derived_url path options =
     bind (str_plus ''https://login.windows.net/'' (get_own options ''tenantID'')) (\<lambda>s.
     Inr (Str (s @ path)))"

text \<open>
  \<^verbatim>\<open>new Strategy(options, verify)\<close>. The constructor of the OAuth2 delegate is a
  parameter: it is given the options object (and, not shown, \<^verbatim>\<open>verify\<close>), reads it,
  and returns or throws. \<open>None\<close> is the result for an address outside the store.
\<close>

definition Strategy ::
  "(object \<Rightarrow> error option) \<Rightarrow> store \<Rightarrow> nat option \<Rightarrow> (error + construction) option" where
  "Strategy OAuth2Strategy_call h options =
     (case or_empty h options of
        None \<Rightarrow> None
      | Some (h, a) \<Rightarrow> Some (
          bind (assign_default h a ''authorizationURL''
                  (derived_url ''/oauth2/authorize?api-version=1.0'')) (\<lambda>h.
          bind (assign_default h a ''tokenURL''
                  (derived_url ''/oauth2/token?api-version=1.0'')) (\<lambda>h.
          bind (assign_default h a ''scopeSeparator'' (\<lambda>options. Inr (Str '',''))) (\<lambda>h.
          case OAuth2Strategy_call (h ! a) of
            Some e \<Rightarrow> Inl e
          | None \<Rightarrow> Inr \<lparr>heap = h, options_ref = a, created = \<lparr>name = ''azure''\<rparr>\<rparr>)))))"

text \<open>
  The two parameter hooks once more, on the store, where what they read and write
  shows: \<^verbatim>\<open>var params = {}\<close> takes the next free address, each
  \<^verbatim>\<open>if(options.k) params.k = options.k\<close> reads the object at the address of the
  options and writes to the new object, and the hook returns the new address. \<open>None\<close>
  as the argument stands for undefined or null, where reading a property throws; \<open>None\<close>
  as the result is for an address outside the store.
\<close>

definition copy_if_truthy_at :: "store \<Rightarrow> nat option \<Rightarrow> string \<Rightarrow> nat \<Rightarrow> error + store" where
  "copy_if_truthy_at h options k params =
     (case options of
        None \<Rightarrow> Inl TypeError
      | Some a \<Rightarrow>
          if truthy (get_own (h ! a) k)
          then Inr (h[params := put k (get_own (h ! a) k) (h ! params)])
          else Inr h)"

definition authorizationParams_at :: "store \<Rightarrow> nat option \<Rightarrow> (error + store \<times> nat) option" where
  "authorizationParams_at h options =
     (if (case options of None \<Rightarrow> True | Some a \<Rightarrow> a < length h)
      then Some (
        let params = length h; h = h @ [[]] in
        bind (copy_if_truthy_at h options ''domain_hint'' params) (\<lambda>h.
        bind (copy_if_truthy_at h options ''login_hint'' params) (\<lambda>h.
        bind (copy_if_truthy_at h options ''prompt'' params) (\<lambda>h.
        bind (copy_if_truthy_at h options ''resource'' params) (\<lambda>h.
        Inr (h, params))))))
      else None)"

definition tokenParams_at :: "store \<Rightarrow> nat option \<Rightarrow> (error + store \<times> nat) option" where
  "tokenParams_at h options =
     (if (case options of None \<Rightarrow> True | Some a \<Rightarrow> a < length h)
      then Some (
        let params = length h; h = h @ [[]] in
        bind (copy_if_truthy_at h options ''resource'' params) (\<lambda>h.
        Inr (h, params)))
      else None)"

text \<open>
  The options object as the constructor finds it after its first statement: the caller's
  object, or the new empty one.
\<close>

definition caller_options :: "store \<Rightarrow> nat option \<Rightarrow> object" where
  "caller_options h options = (case options of None \<Rightarrow> [] | Some a \<Rightarrow> h ! a)"

section \<open>Properties of the parameter hooks\<close>

lemma bind_Inr [simp]: "bind (Inr v) f = f v"
  by (simp add: bind_def)

lemma bind_Inl [simp]: "bind (Inl e) f = Inl e"
  by (simp add: bind_def)

lemma copy_if_truthy_Obj:
  "copy_if_truthy (Obj kvs) k params =
     Inr (if truthy (get_own kvs k) then put k (get_own kvs k) params else params)"
  by (simp add: copy_if_truthy_def)

lemma authorizationParams_Obj:
  "authorizationParams (Obj kvs) =
     Inr (map (\<lambda>k. (k, get_own kvs k))
            (filter (\<lambda>k. truthy (get_own kvs k)) authorization_keys))"
  by (simp add: authorizationParams_def copy_if_truthy_Obj authorization_keys_def)

lemma tokenParams_Obj:
  "tokenParams (Obj kvs) =
     Inr (map (\<lambda>k. (k, get_own kvs k))
            (filter (\<lambda>k. truthy (get_own kvs k)) [''resource'']))"
  by (simp add: tokenParams_def copy_if_truthy_Obj)

lemma map_of_selected:
  "map_of (map (\<lambda>k. (k, f k)) (filter P ks)) k =
     (if k \<in> set ks \<and> P k then Some (f k) else None)"
  by (induction ks) auto

lemma map_of_put: "map_of (put k v kvs) = (map_of kvs)(k \<mapsto> v)"
  by (induction kvs) auto

lemma get_own_put: "get_own (put k v kvs) k' = (if k' = k then v else get_own kvs k')"
  by (simp add: get_own_def map_of_put)

text \<open>
  C5, as amended. On every options object \<^verbatim>\<open>authorizationParams\<close> returns the mapping
  that holds exactly those keys among \<^verbatim>\<open>domain_hint\<close>, \<^verbatim>\<open>login_hint\<close>, \<^verbatim>\<open>prompt\<close>
  and \<^verbatim>\<open>resource\<close> whose value in the options is truthy, each bound to that value, and
  no other key. Any truthy \<^verbatim>\<open>prompt\<close> passes: the values are not validated.
\<close>

theorem authorizationParams_truthy_keys:
  "(\<exists>params. authorizationParams (Obj kvs) = Inr params \<and>
     (\<forall>k. map_of params k =
        (if k \<in> set authorization_keys \<and> truthy (get_own kvs k)
         then Some (get_own kvs k) else None))) \<and>
   authorizationParams (Obj []) = Inr [] \<and>
   authorizationParams (Obj [(''domain_hint'', Str ''x''), (''prompt'', Str ''login'')]) =
     Inr [(''domain_hint'', Str ''x''), (''prompt'', Str ''login'')]"
  by (simp add: authorizationParams_Obj map_of_selected)
     (simp add: authorization_keys_def get_own_def)

text \<open>
  C5 as stated fails: in \<^verbatim>\<open>{login_hint: ""}\<close> the key \<^verbatim>\<open>login_hint\<close> is present, and
  the result is the empty mapping, not \<^verbatim>\<open>{login_hint: ""}\<close>.
\<close>

theorem authorizationParams_present_key_dropped:
  "map_of [(''login_hint'', Str '''')] ''login_hint'' = Some (Str '''') \<and>
   authorizationParams (Obj [(''login_hint'', Str '''')]) = Inr [] \<and>
   authorizationParams (Obj [(''login_hint'', Str '''')]) \<noteq> Inr [(''login_hint'', Str '''')]"
  by (simp add: authorizationParams_Obj authorization_keys_def get_own_def)

text \<open>
  C6, as amended. On every options object \<^verbatim>\<open>tokenParams\<close> returns the mapping with the
  single key \<^verbatim>\<open>resource\<close> bound to \<^verbatim>\<open>options.resource\<close> when that value is truthy, and
  the empty mapping otherwise.
\<close>

theorem tokenParams_truthy_resource:
  "tokenParams (Obj kvs) =
     Inr (if truthy (get_own kvs ''resource'')
          then [(''resource'', get_own kvs ''resource'')] else []) \<and>
   tokenParams (Obj []) = Inr [] \<and>
   tokenParams (Obj [(''resource'', Str ''r'')]) = Inr [(''resource'', Str ''r'')]"
  by (simp add: tokenParams_Obj get_own_def)

text \<open>
  C6 as stated fails: in \<^verbatim>\<open>{resource: ""}\<close> the key \<^verbatim>\<open>resource\<close> is present, and the
  result is the empty mapping, not \<^verbatim>\<open>{resource: ""}\<close>.
\<close>

theorem tokenParams_present_resource_dropped:
  "map_of [(''resource'', Str '''')] ''resource'' = Some (Str '''') \<and>
   tokenParams (Obj [(''resource'', Str '''')]) = Inr [] \<and>
   tokenParams (Obj [(''resource'', Str '''')]) \<noteq> Inr [(''resource'', Str '''')]"
  by (simp add: tokenParams_Obj get_own_def)

lemma copy_if_truthy_at_new:
  "a < length h \<Longrightarrow>
   copy_if_truthy_at (h @ [ps]) (Some a) k (length h) =
     Inr (h @ [if truthy (get_own (h ! a) k) then put k (get_own (h ! a) k) ps else ps])"
  by (simp add: copy_if_truthy_at_def nth_append)

lemma authorizationParams_at_Some:
  assumes "a < length h"
  shows "authorizationParams_at h (Some a) =
     Some (Inr (h @ [map (\<lambda>k. (k, get_own (h ! a) k))
                       (filter (\<lambda>k. truthy (get_own (h ! a) k)) authorization_keys)],
                length h))"
  using assms
  by (simp add: authorizationParams_at_def Let_def copy_if_truthy_at_new authorization_keys_def)

lemma tokenParams_at_Some:
  assumes "a < length h"
  shows "tokenParams_at h (Some a) =
     Some (Inr (h @ [map (\<lambda>k. (k, get_own (h ! a) k))
                       (filter (\<lambda>k. truthy (get_own (h ! a) k)) [''resource''])],
                length h))"
  using assms
  by (simp add: tokenParams_at_def Let_def copy_if_truthy_at_new)

text \<open>
  C7, as amended. On every options object \<^verbatim>\<open>authorizationParams\<close> and \<^verbatim>\<open>tokenParams\<close>
  return, without an exception, a new object: the store after the call is the store
  before it with that one object added, so neither the options nor any other object is
  written. The new object is the mapping computed from the options, and it is the same
  for any two stores and options objects that agree on the four keys, whatever else the
  stores and the objects hold: nothing but those keys is read. When the argument is
  undefined or null the hooks throw a TypeError.
\<close>

theorem params_pure_total_on_objects:
  assumes "a < length h" and "b < length g"
    and "\<forall>k \<in> set authorization_keys. get_own (h ! a) k = get_own (g ! b) k"
  shows "(\<exists>params.
            authorizationParams_at h (Some a) = Some (Inr (h @ [params], length h)) \<and>
            authorizationParams_at g (Some b) = Some (Inr (g @ [params], length g)) \<and>
            authorizationParams (Obj (h ! a)) = Inr params) \<and>
         (\<exists>params.
            tokenParams_at h (Some a) = Some (Inr (h @ [params], length h)) \<and>
            tokenParams_at g (Some b) = Some (Inr (g @ [params], length g)) \<and>
            tokenParams (Obj (h ! a)) = Inr params) \<and>
         authorizationParams_at h None = Some (Inl TypeError) \<and>
         tokenParams_at h None = Some (Inl TypeError)"
proof -
  from assms(3) have same: "get_own (h ! a) ''domain_hint'' = get_own (g ! b) ''domain_hint''"
    "get_own (h ! a) ''login_hint'' = get_own (g ! b) ''login_hint''"
    "get_own (h ! a) ''prompt'' = get_own (g ! b) ''prompt''"
    "get_own (h ! a) ''resource'' = get_own (g ! b) ''resource''"
    by (simp_all add: authorization_keys_def)
  have none: "authorizationParams_at h None = Some (Inl TypeError)"
    "tokenParams_at h None = Some (Inl TypeError)"
    by (simp_all add: authorizationParams_at_def tokenParams_at_def copy_if_truthy_at_def Let_def)
  have au: "\<exists>params.
            authorizationParams_at h (Some a) = Some (Inr (h @ [params], length h)) \<and>
            authorizationParams_at g (Some b) = Some (Inr (g @ [params], length g)) \<and>
            authorizationParams (Obj (h ! a)) = Inr params"
    using same
    by (simp add: authorizationParams_at_Some [OF assms(1)] authorizationParams_at_Some [OF assms(2)]
        authorizationParams_Obj authorization_keys_def)
  have tk: "\<exists>params.
            tokenParams_at h (Some a) = Some (Inr (h @ [params], length h)) \<and>
            tokenParams_at g (Some b) = Some (Inr (g @ [params], length g)) \<and>
            tokenParams (Obj (h ! a)) = Inr params"
    using same
    by (simp add: tokenParams_at_Some [OF assms(1)] tokenParams_at_Some [OF assms(2)]
        tokenParams_Obj)
  from au tk none show ?thesis by blast
qed

theorem params_pure_total_on_objects_witness:
  "authorizationParams_at [[(''prompt'', Str ''login''), (''resource'', Str ''r'')]] (Some 0) =
     Some (Inr ([[(''prompt'', Str ''login''), (''resource'', Str ''r'')],
                 [(''prompt'', Str ''login''), (''resource'', Str ''r'')]], 1)) \<and>
   authorizationParams_at
       [[(''tenantID'', Str ''T'')], [(''resource'', Str ''r''), (''state'', Null), (''prompt'', Str ''login'')]]
       (Some 1) =
     Some (Inr ([[(''tenantID'', Str ''T'')],
                 [(''resource'', Str ''r''), (''state'', Null), (''prompt'', Str ''login'')],
                 [(''prompt'', Str ''login''), (''resource'', Str ''r'')]], 2)) \<and>
   tokenParams_at [[(''prompt'', Str ''login''), (''resource'', Str ''r'')]] (Some 0) =
     Some (Inr ([[(''prompt'', Str ''login''), (''resource'', Str ''r'')],
                 [(''resource'', Str ''r'')]], 1)) \<and>
   tokenParams_at
       [[(''tenantID'', Str ''T'')], [(''resource'', Str ''r''), (''state'', Null), (''prompt'', Str ''login'')]]
       (Some 1) =
     Some (Inr ([[(''tenantID'', Str ''T'')],
                 [(''resource'', Str ''r''), (''state'', Null), (''prompt'', Str ''login'')],
                 [(''resource'', Str ''r'')]], 2))"
proof -
  let ?h = "[[(''prompt'', Str ''login''), (''resource'', Str ''r'')]]"
  let ?g = "[[(''tenantID'', Str ''T'')],
             [(''resource'', Str ''r''), (''state'', Null), (''prompt'', Str ''login'')]]"
  have a: "(0::nat) < length ?h" and b: "(1::nat) < length ?g"
    by simp_all
  have same: "\<forall>k \<in> set authorization_keys. get_own (?h ! 0) k = get_own (?g ! 1) k"
    by (simp add: authorization_keys_def get_own_def)
  from params_pure_total_on_objects [OF a b same]
  obtain ps qs where
    r: "authorizationParams_at ?h (Some 0) = Some (Inr (?h @ [ps], length ?h))"
      "authorizationParams_at ?g (Some 1) = Some (Inr (?g @ [ps], length ?g))"
      "tokenParams_at ?h (Some 0) = Some (Inr (?h @ [qs], length ?h))"
      "tokenParams_at ?g (Some 1) = Some (Inr (?g @ [qs], length ?g))"
    and p: "authorizationParams (Obj (?h ! 0)) = Inr ps"
    and q: "tokenParams (Obj (?h ! 0)) = Inr qs"
    by blast
  from p have "ps = [(''prompt'', Str ''login''), (''resource'', Str ''r'')]"
    by (simp add: authorizationParams_Obj authorization_keys_def get_own_def)
  moreover from q have "qs = [(''resource'', Str ''r'')]"
    by (simp add: tokenParams_Obj get_own_def)
  ultimately show ?thesis using r by simp
qed

text \<open>
  C7 as stated fails: the hooks do fail for an options argument, undefined or null, on
  which \<^verbatim>\<open>options.domain_hint\<close> and \<^verbatim>\<open>options.resource\<close> throw a TypeError.
\<close>

theorem params_throw_without_object:
  "authorizationParams Undefined = Inl TypeError \<and>
   authorizationParams Null = Inl TypeError \<and>
   tokenParams Undefined = Inl TypeError \<and>
   tokenParams Null = Inl TypeError"
  by (simp add: authorizationParams_def tokenParams_def copy_if_truthy_def)

text \<open>
  C10. Both hooks leave out a key whose value in the options is falsy, whether the key is
  absent or present: the test is on the value. So \<^verbatim>\<open>authorizationParams({domain_hint: ""})\<close>
  and \<^verbatim>\<open>tokenParams({resource: ""})\<close> are empty.
\<close>

theorem params_omit_falsy:
  "\<not> truthy (get_own kvs k) \<Longrightarrow>
     (\<exists>params. authorizationParams (Obj kvs) = Inr params \<and> map_of params k = None) \<and>
     (\<exists>params. tokenParams (Obj kvs) = Inr params \<and> map_of params k = None)"
  by (auto simp add: authorizationParams_Obj tokenParams_Obj map_of_selected)

theorem params_omit_falsy_witness:
  "\<not> truthy (get_own [(''domain_hint'', Str '''')] ''domain_hint'') \<and>
   authorizationParams (Obj [(''domain_hint'', Str '''')]) = Inr [] \<and>
   \<not> truthy (get_own [(''resource'', Str '''')] ''resource'') \<and>
   tokenParams (Obj [(''resource'', Str '''')]) = Inr []"
proof -
  have d: "\<not> truthy (get_own [(''domain_hint'', Str '''')] ''domain_hint'')"
    and r: "\<not> truthy (get_own [(''resource'', Str '''')] ''resource'')"
    by (simp_all add: get_own_def)
  from params_omit_falsy [OF d]
  obtain ps where a: "authorizationParams (Obj [(''domain_hint'', Str '''')]) = Inr ps"
    and "map_of ps ''domain_hint'' = None"
    by blast
  from params_omit_falsy [OF r]
  obtain qs where t: "tokenParams (Obj [(''resource'', Str '''')]) = Inr qs"
    and "map_of qs ''resource'' = None"
    by blast
  from a have "ps = []"
    by (simp add: authorizationParams_Obj authorization_keys_def get_own_def)
  moreover from t have "qs = []"
    by (simp add: tokenParams_Obj get_own_def)
  ultimately show ?thesis using a t d r by simp
qed

section \<open>Properties of the profile hook\<close>

lemma userProfile_try_Obj:
  assumes "index (split CHR ''.'' accessToken) 1 = Str payload"
    and "Buffer_base64 P payload = Inr bytes"
    and "toString_utf8 P bytes = Inr text"
    and "JSON_parse P text = Inr (Obj claims)"
    and "to_string (get_own claims ''given_name'') = Inr g"
    and "to_string (get_own claims ''family_name'') = Inr f"
  shows "userProfile_try P accessToken [(''provider'', v)] =
    Inr [(''provider'', v),
         (''utf8'', Str text),
         (''json'', Obj claims),
         (''id'', get_own claims ''oid''),
         (''orgId'', get_own claims ''tid''),
         (''username'', get_own claims ''unique_name''),
         (''displayname'', Str (g @ '' '' @ f)),
         (''name'', Obj [(''familyName'', get_own claims ''family_name''),
                         (''givenName'', get_own claims ''given_name'')]),
         (''emails'', Arr [get_own claims ''email''])]"
  using assms by (simp add: userProfile_try_def plus_str_def str_plus_def)

lemma userProfile_exception_path:
  "userProfile_try P accessToken [(''provider'', Str (name this))] = Inl e \<Longrightarrow>
   userProfile P this accessToken done =
     \<lparr>calls = [], logged = [''Unable to parse oauth2 token for user profile''],
      thrown = Some ReferenceError\<rparr>"
  by (simp add: userProfile_def userProfile_catch_def)


text \<open>A payload that parses to \<^verbatim>\<open>null\<close> fails at the first claim that is read.\<close>

lemma userProfile_null_claims:
  assumes "index (split CHR ''.'' accessToken) 1 = Str payload"
    and "Buffer_base64 P payload = Inr bytes"
    and "toString_utf8 P bytes = Inr text"
    and "JSON_parse P text = Inr Null"
  shows "userProfile_try P accessToken profile = Inl TypeError"
  using assms by (simp add: userProfile_try_def)

text \<open>
  C1, on the code. The token \<^verbatim>\<open>abc\<close> has one segment, so the payload is undefined
  and the Buffer constructor throws. The catch block logs, then fails on the undeclared
  \<^verbatim>\<open>ex\<close>: the callback is not invoked, and \<^verbatim>\<open>userProfile\<close> throws a ReferenceError.
  The claim asks for one invocation with an error and null, and no exception.
\<close>

theorem userProfile_no_dot_throws:
  "userProfile P this ''abc'' done =
     \<lparr>calls = [], logged = [''Unable to parse oauth2 token for user profile''],
      thrown = Some ReferenceError\<rparr>"
  by (simp add: userProfile_def userProfile_try_def userProfile_catch_def index_def)

text \<open>
  C2, on the code. A token of three segments whose payload decodes to a claim set with
  the six claims reaches the callback with a null error and a profile whose \<^verbatim>\<open>id\<close>,
  \<^verbatim>\<open>orgId\<close>, \<^verbatim>\<open>username\<close>, \<^verbatim>\<open>name.givenName\<close>, \<^verbatim>\<open>name.familyName\<close> and
  \<^verbatim>\<open>emails[0]\<close> are the claims. The full name is stored under \<^verbatim>\<open>displayname\<close>; the
  profile has no property \<^verbatim>\<open>displayName\<close>, which the claim and the function's own
  documentation name, so that field reads as undefined.
\<close>

theorem userProfile_displayName_unset:
  assumes "split CHR ''.'' accessToken = [header, payload, signature]"
    and "Buffer_base64 P payload = Inr bytes"
    and "toString_utf8 P bytes = Inr text"
    and "JSON_parse P text = Inr (Obj claims)"
    and "map_of claims ''oid'' = Some oid"
    and "map_of claims ''tid'' = Some tid"
    and "map_of claims ''unique_name'' = Some unique_name"
    and "map_of claims ''given_name'' = Some (Str given_name)"
    and "map_of claims ''family_name'' = Some (Str family_name)"
    and "map_of claims ''email'' = Some email"
  shows "\<exists>profile.
      calls (userProfile P this accessToken done) = [(Null, Obj profile)] \<and>
      get_own profile ''id'' = oid \<and>
      get_own profile ''orgId'' = tid \<and>
      get_own profile ''username'' = unique_name \<and>
      get_prop (get_own profile ''name'') ''givenName'' = Inr (Str given_name) \<and>
      get_prop (get_own profile ''name'') ''familyName'' = Inr (Str family_name) \<and>
      get_own profile ''emails'' = Arr [email] \<and>
      get_own profile ''displayname'' = Str (given_name @ '' '' @ family_name) \<and>
      map_of profile ''displayName'' = None \<and>
      get_own profile ''displayName'' = Undefined"
proof -
  from assms(1) have seg: "index (split CHR ''.'' accessToken) 1 = Str payload"
    by (simp add: index_def)
  from assms(8) have g: "to_string (get_own claims ''given_name'') = Inr given_name"
    by (simp add: get_own_def)
  from assms(9) have f: "to_string (get_own claims ''family_name'') = Inr family_name"
    by (simp add: get_own_def)
  note prof = userProfile_try_Obj [OF seg assms(2) assms(3) assms(4) g f, of "Str (name this)"]
  show ?thesis
    using assms(5-10)
    by (cases "done Null (Obj (projr (userProfile_try P accessToken [(''provider'', Str (name this))])))")
       (simp_all add: userProfile_def prof userProfile_catch_def get_own_def)
qed


theorem userProfile_displayName_unset_witness:
  \<open>\<exists>profile.
     calls (userProfile
        (single_payload_runtime
           ''eyJvaWQiOiIxIiwidGlkIjoiMiIsInVuaXF1ZV9uYW1lIjoidSIsImdpdmVuX25hbWUiOiJBIiwiZmFtaWx5X25hbWUiOiJCIiwiZW1haWwiOiJlIn0''
           (map of_char ''{"oid":"1","tid":"2","unique_name":"u","given_name":"A","family_name":"B","email":"e"}'')
           ''{"oid":"1","tid":"2","unique_name":"u","given_name":"A","family_name":"B","email":"e"}''
           (Obj [(''oid'', Str ''1''), (''tid'', Str ''2''), (''unique_name'', Str ''u''),
                 (''given_name'', Str ''A''), (''family_name'', Str ''B''), (''email'', Str ''e'')]))
        \<lparr>name = ''azure''\<rparr>
        ''eyJhbGciOiJub25lIn0.eyJvaWQiOiIxIiwidGlkIjoiMiIsInVuaXF1ZV9uYW1lIjoidSIsImdpdmVuX25hbWUiOiJBIiwiZmFtaWx5X25hbWUiOiJCIiwiZW1haWwiOiJlIn0.c2ln''
        (\<lambda>err profile. None))
       = [(Null, Obj profile)] \<and>
     get_own profile ''id'' = Str ''1'' \<and>
     get_own profile ''displayname'' = Str ''A B'' \<and>
     get_own profile ''displayName'' = Undefined\<close>
proof -
  let ?seg = "''eyJvaWQiOiIxIiwidGlkIjoiMiIsInVuaXF1ZV9uYW1lIjoidSIsImdpdmVuX25hbWUiOiJBIiwiZmFtaWx5X25hbWUiOiJCIiwiZW1haWwiOiJlIn0''"
  let ?txt = \<open>''{"oid":"1","tid":"2","unique_name":"u","given_name":"A","family_name":"B","email":"e"}''\<close>
  let ?claims = "[(''oid'', Str ''1''), (''tid'', Str ''2''), (''unique_name'', Str ''u''),
                 (''given_name'', Str ''A''), (''family_name'', Str ''B''), (''email'', Str ''e'')]"
  let ?P = "single_payload_runtime ?seg (map of_char ?txt) ?txt (Obj ?claims)"
  let ?tok = "''eyJhbGciOiJub25lIn0.eyJvaWQiOiIxIiwidGlkIjoiMiIsInVuaXF1ZV9uYW1lIjoidSIsImdpdmVuX25hbWUiOiJBIiwiZmFtaWx5X25hbWUiOiJCIiwiZW1haWwiOiJlIn0.c2ln''"
  have s: "split CHR ''.'' ?tok = [''eyJhbGciOiJub25lIn0'', ?seg, ''c2ln'']"
    by simp
  have b: "Buffer_base64 ?P ?seg = Inr (map of_char ?txt)"
    by (simp add: single_payload_runtime_def)
  have u: "toString_utf8 ?P (map of_char ?txt) = Inr ?txt"
    by (simp add: single_payload_runtime_def)
  have j: "JSON_parse ?P ?txt = Inr (Obj ?claims)"
    by (simp add: single_payload_runtime_def)
  from userProfile_displayName_unset [OF s b u j, of "Str ''1''" "Str ''2''" "Str ''u''" "''A''" "''B''" "Str ''e''"
      "\<lparr>name = ''azure''\<rparr>" "\<lambda>err profile. None"]
  show ?thesis by simp blast
qed




section \<open>Properties of the constructor\<close>

lemma or_empty_Some:
  assumes "or_empty h options = Some (h0, a)"
  shows "a < length h0" and "h0 ! a = caller_options h options"
    and "options = Some b \<Longrightarrow> h0 = h \<and> a = b"
    and "options = None \<Longrightarrow> h0 = h @ [[]] \<and> a = length h"
  using assms by (auto simp: or_empty_def caller_options_def split: option.splits if_splits)

lemma assign_default_Inr:
  assumes "assign_default h a k alt = Inr h'" and "a < length h"
  shows "length h' = length h"
    and "b \<noteq> a \<Longrightarrow> h' ! b = h ! b"
    and "k' \<noteq> k \<Longrightarrow> map_of (h' ! a) k' = map_of (h ! a) k'"
    and "truthy (get_own (h ! a) k) \<Longrightarrow> map_of (h' ! a) k = Some (get_own (h ! a) k)"
    and "\<not> truthy (get_own (h ! a) k) \<Longrightarrow> \<exists>v. alt (h ! a) = Inr v \<and> map_of (h' ! a) k = Some v"
  using assms
  by (auto simp: assign_default_def Let_def bind_def map_of_put split: sum.splits if_splits)

lemma derived_url_Inr:
  "derived_url path obj = Inr v \<Longrightarrow>
     \<exists>t. to_string (get_own obj ''tenantID'') = Inr t \<and>
         v = Str (''https://login.windows.net/'' @ t @ path)"
  by (auto simp: derived_url_def str_plus_def bind_def split: sum.splits)

lemma Strategy_Inr:
  assumes "Strategy D h options = Some (Inr c)"
  obtains h0 a h1 h2 where "or_empty h options = Some (h0, a)"
    and "assign_default h0 a ''authorizationURL''
           (derived_url ''/oauth2/authorize?api-version=1.0'') = Inr h1"
    and "assign_default h1 a ''tokenURL''
           (derived_url ''/oauth2/token?api-version=1.0'') = Inr h2"
    and "assign_default h2 a ''scopeSeparator'' (\<lambda>options. Inr (Str '','')) = Inr (heap c)"
    and "options_ref c = a" and "D (heap c ! a) = None" and "created c = \<lparr>name = ''azure''\<rparr>"
  using assms
  by (auto simp: Strategy_def bind_def split: option.splits sum.splits prod.splits)


lemma Strategy_options_after:
  assumes ok: "Strategy D h options = Some (Inr c)"
  shows "truthy (get_own (caller_options h options) ''authorizationURL'') \<Longrightarrow>
           map_of (heap c ! options_ref c) ''authorizationURL'' =
             Some (get_own (caller_options h options) ''authorizationURL'')"
    and "\<not> truthy (get_own (caller_options h options) ''authorizationURL'') \<Longrightarrow>
           \<exists>t. to_string (get_own (caller_options h options) ''tenantID'') = Inr t \<and>
               map_of (heap c ! options_ref c) ''authorizationURL'' =
                 Some (Str (''https://login.windows.net/'' @ t @ ''/oauth2/authorize?api-version=1.0''))"
    and "truthy (get_own (caller_options h options) ''tokenURL'') \<Longrightarrow>
           map_of (heap c ! options_ref c) ''tokenURL'' =
             Some (get_own (caller_options h options) ''tokenURL'')"
    and "\<not> truthy (get_own (caller_options h options) ''tokenURL'') \<Longrightarrow>
           \<exists>t. to_string (get_own (caller_options h options) ''tenantID'') = Inr t \<and>
               map_of (heap c ! options_ref c) ''tokenURL'' =
                 Some (Str (''https://login.windows.net/'' @ t @ ''/oauth2/token?api-version=1.0''))"
    and "map_of (heap c ! options_ref c) ''scopeSeparator'' =
           Some (if truthy (get_own (caller_options h options) ''scopeSeparator'')
                 then get_own (caller_options h options) ''scopeSeparator'' else Str '','')"
    and "k \<noteq> ''authorizationURL'' \<Longrightarrow> k \<noteq> ''tokenURL'' \<Longrightarrow> k \<noteq> ''scopeSeparator'' \<Longrightarrow>
           map_of (heap c ! options_ref c) k = map_of (caller_options h options) k"
proof -
  from ok obtain h0 a h1 h2 where
    e: "or_empty h options = Some (h0, a)"
    and s1: "assign_default h0 a ''authorizationURL''
           (derived_url ''/oauth2/authorize?api-version=1.0'') = Inr h1"
    and s2: "assign_default h1 a ''tokenURL''
           (derived_url ''/oauth2/token?api-version=1.0'') = Inr h2"
    and s3: "assign_default h2 a ''scopeSeparator'' (\<lambda>options. Inr (Str '','')) = Inr (heap c)"
    and r: "options_ref c = a"
    by (rule Strategy_Inr)
  from e have a0: "a < length h0" and b: "h0 ! a = caller_options h options"
    by (rule or_empty_Some)+
  from assign_default_Inr(1) [OF s1 a0] a0 have a1: "a < length h1" by simp
  from assign_default_Inr(1) [OF s2 a1] a1 have a2: "a < length h2" by simp
  note m1 = assign_default_Inr(3) [OF s1 a0]
  note m2 = assign_default_Inr(3) [OF s2 a1]
  note m3 = assign_default_Inr(3) [OF s3 a2]
  show "k \<noteq> ''authorizationURL'' \<Longrightarrow> k \<noteq> ''tokenURL'' \<Longrightarrow> k \<noteq> ''scopeSeparator'' \<Longrightarrow>
           map_of (heap c ! options_ref c) k = map_of (caller_options h options) k"
    using m1 [of k] m2 [of k] m3 [of k] r b by simp
  have au: "map_of (heap c ! a) ''authorizationURL'' = map_of (h1 ! a) ''authorizationURL''"
    using m2 [of "''authorizationURL''"] m3 [of "''authorizationURL''"] by simp
  have tu: "map_of (heap c ! a) ''tokenURL'' = map_of (h2 ! a) ''tokenURL''"
    using m3 [of "''tokenURL''"] by simp
  have t1: "get_own (h1 ! a) k = get_own (h0 ! a) k" if "k \<noteq> ''authorizationURL''" for k
    using m1 [of k] that by (simp add: get_own_def)
  have t2: "get_own (h2 ! a) k = get_own (h0 ! a) k"
    if "k \<noteq> ''authorizationURL''" "k \<noteq> ''tokenURL''" for k
    using m1 [of k] m2 [of k] that by (simp add: get_own_def)
  show "truthy (get_own (caller_options h options) ''authorizationURL'') \<Longrightarrow>
           map_of (heap c ! options_ref c) ''authorizationURL'' =
             Some (get_own (caller_options h options) ''authorizationURL'')"
    using assign_default_Inr(4) [OF s1 a0] au r b by simp
  show "\<not> truthy (get_own (caller_options h options) ''authorizationURL'') \<Longrightarrow>
           \<exists>t. to_string (get_own (caller_options h options) ''tenantID'') = Inr t \<and>
               map_of (heap c ! options_ref c) ''authorizationURL'' =
                 Some (Str (''https://login.windows.net/'' @ t @ ''/oauth2/authorize?api-version=1.0''))"
    using assign_default_Inr(5) [OF s1 a0] au r b by (auto dest: derived_url_Inr)
  show "truthy (get_own (caller_options h options) ''tokenURL'') \<Longrightarrow>
           map_of (heap c ! options_ref c) ''tokenURL'' =
             Some (get_own (caller_options h options) ''tokenURL'')"
    using assign_default_Inr(4) [OF s2 a1] tu r b t1 [of "''tokenURL''"] by simp
  show "\<not> truthy (get_own (caller_options h options) ''tokenURL'') \<Longrightarrow>
           \<exists>t. to_string (get_own (caller_options h options) ''tenantID'') = Inr t \<and>
               map_of (heap c ! options_ref c) ''tokenURL'' =
                 Some (Str (''https://login.windows.net/'' @ t @ ''/oauth2/token?api-version=1.0''))"
    using assign_default_Inr(5) [OF s2 a1] tu r b t1 [of "''tokenURL''"] t1 [of "''tenantID''"]
    by (auto dest: derived_url_Inr)
  show "map_of (heap c ! options_ref c) ''scopeSeparator'' =
           Some (if truthy (get_own (caller_options h options) ''scopeSeparator'')
                 then get_own (caller_options h options) ''scopeSeparator'' else Str '','')"
    using assign_default_Inr(4) [OF s3 a2] assign_default_Inr(5) [OF s3 a2] r b
      t2 [of "''scopeSeparator''"]
    by auto
qed

lemma Strategy_frame:
  assumes ok: "Strategy D h (Some a) = Some (Inr c)"
  shows "a < length h" and "options_ref c = a" and "length (heap c) = length h"
    and "b \<noteq> a \<Longrightarrow> heap c ! b = h ! b"
proof -
  from ok obtain h0 a' h1 h2 where
    e: "or_empty h (Some a) = Some (h0, a')"
    and s1: "assign_default h0 a' ''authorizationURL''
           (derived_url ''/oauth2/authorize?api-version=1.0'') = Inr h1"
    and s2: "assign_default h1 a' ''tokenURL''
           (derived_url ''/oauth2/token?api-version=1.0'') = Inr h2"
    and s3: "assign_default h2 a' ''scopeSeparator'' (\<lambda>options. Inr (Str '','')) = Inr (heap c)"
    and r: "options_ref c = a'"
    by (rule Strategy_Inr)
  from or_empty_Some(3) [OF e refl] have eq: "h0 = h" "a' = a" by simp_all
  from or_empty_Some(1) [OF e] eq show a0: "a < length h" by simp
  from r eq show "options_ref c = a" by simp
  from assign_default_Inr(1) [OF s1] a0 eq have l1: "length h1 = length h" by simp
  from assign_default_Inr(1) [OF s2] a0 eq l1 have l2: "length h2 = length h" by simp
  from assign_default_Inr(1) [OF s3] a0 eq l2 show "length (heap c) = length h" by simp
  show "heap c ! b = h ! b" if "b \<noteq> a"
    using assign_default_Inr(2) [OF s1, of b] assign_default_Inr(2) [OF s2, of b]
      assign_default_Inr(2) [OF s3, of b] a0 eq l1 l2 that by simp
qed

text \<open>
  Construction returns when the tenantID converts to a string and the delegate accepts
  the options. Without an options argument the object is new and the store is otherwise
  as before.
\<close>

lemma Strategy_returns:
  assumes "or_empty h options = Some (h0, a)"
    and "to_string (get_own (h0 ! a) ''tenantID'') = Inr t"
    and "D = (\<lambda>options. None)"
  shows "\<exists>c. Strategy D h options = Some (Inr c)"
  using assms or_empty_Some(1) [OF assms(1)]
  by (simp add: Strategy_def assign_default_def derived_url_def str_plus_def Let_def get_own_put)

lemma Strategy_fresh_object:
  assumes "Strategy D h None = Some (Inr c)"
  shows "options_ref c = length h" and "length (heap c) = Suc (length h)"
    and "b < length h \<Longrightarrow> heap c ! b = h ! b"
proof -
  from assms obtain h0 a h1 h2 where
    e: "or_empty h None = Some (h0, a)"
    and s1: "assign_default h0 a ''authorizationURL''
           (derived_url ''/oauth2/authorize?api-version=1.0'') = Inr h1"
    and s2: "assign_default h1 a ''tokenURL''
           (derived_url ''/oauth2/token?api-version=1.0'') = Inr h2"
    and s3: "assign_default h2 a ''scopeSeparator'' (\<lambda>options. Inr (Str '','')) = Inr (heap c)"
    and r: "options_ref c = a"
    by (rule Strategy_Inr)
  from or_empty_Some(4) [OF e refl] have eq: "h0 = h @ [[]]" "a = length h" by simp_all
  from r eq show "options_ref c = length h" by simp
  from eq have a0: "a < length h0" by simp
  from assign_default_Inr(1) [OF s1 a0] have l1: "length h1 = length h0" .
  from assign_default_Inr(1) [OF s2] a0 l1 have l2: "length h2 = length h0" by simp
  from assign_default_Inr(1) [OF s3] a0 l2 eq show "length (heap c) = Suc (length h)" by simp
  show "heap c ! b = h ! b" if "b < length h"
    using assign_default_Inr(2) [OF s1 a0, of b] assign_default_Inr(2) [OF s2, of b]
      assign_default_Inr(2) [OF s3, of b] a0 eq l1 l2 that by (simp add: nth_append)
qed

lemma get_own_Some: "map_of kvs k = Some v \<Longrightarrow> get_own kvs k = v"
  by (simp add: get_own_def)

text \<open>
  C4, as amended. When construction succeeds, each endpoint URL is set on its own: an
  \<^verbatim>\<open>authorizationURL\<close> (\<^verbatim>\<open>tokenURL\<close>) option that is truthy is kept unchanged; one that
  is absent or falsy, the empty string included, is replaced by
  \<^verbatim>\<open>https://login.windows.net/\<close>, the tenantID converted to a string, and
  \<^verbatim>\<open>/oauth2/authorize?api-version=1.0\<close> (\<^verbatim>\<open>/oauth2/token?api-version=1.0\<close>). A string
  tenantID is inserted as it is, an absent one as the text \<^verbatim>\<open>undefined\<close>; nothing is
  validated.
\<close>

theorem Strategy_endpoint_urls:
  assumes "Strategy D h options = Some (Inr c)"
  shows
    "(truthy (get_own (caller_options h options) ''authorizationURL'') \<longrightarrow>
        get_own (heap c ! options_ref c) ''authorizationURL'' =
          get_own (caller_options h options) ''authorizationURL'') \<and>
     (\<not> truthy (get_own (caller_options h options) ''authorizationURL'') \<longrightarrow>
        (\<exists>t. to_string (get_own (caller_options h options) ''tenantID'') = Inr t \<and>
           get_own (heap c ! options_ref c) ''authorizationURL'' =
             Str (''https://login.windows.net/'' @ t @ ''/oauth2/authorize?api-version=1.0''))) \<and>
     (truthy (get_own (caller_options h options) ''tokenURL'') \<longrightarrow>
        get_own (heap c ! options_ref c) ''tokenURL'' =
          get_own (caller_options h options) ''tokenURL'') \<and>
     (\<not> truthy (get_own (caller_options h options) ''tokenURL'') \<longrightarrow>
        (\<exists>t. to_string (get_own (caller_options h options) ''tenantID'') = Inr t \<and>
           get_own (heap c ! options_ref c) ''tokenURL'' =
             Str (''https://login.windows.net/'' @ t @ ''/oauth2/token?api-version=1.0'')))"
proof (intro conjI impI)
  assume "truthy (get_own (caller_options h options) ''authorizationURL'')"
  from Strategy_options_after(1) [OF assms this]
  show "get_own (heap c ! options_ref c) ''authorizationURL'' =
          get_own (caller_options h options) ''authorizationURL''"
    by (rule get_own_Some)
next
  assume "\<not> truthy (get_own (caller_options h options) ''authorizationURL'')"
  from Strategy_options_after(2) [OF assms this]
  show "\<exists>t. to_string (get_own (caller_options h options) ''tenantID'') = Inr t \<and>
           get_own (heap c ! options_ref c) ''authorizationURL'' =
             Str (''https://login.windows.net/'' @ t @ ''/oauth2/authorize?api-version=1.0'')"
    by (blast dest: get_own_Some)
next
  assume "truthy (get_own (caller_options h options) ''tokenURL'')"
  from Strategy_options_after(3) [OF assms this]
  show "get_own (heap c ! options_ref c) ''tokenURL'' =
          get_own (caller_options h options) ''tokenURL''"
    by (rule get_own_Some)
next
  assume "\<not> truthy (get_own (caller_options h options) ''tokenURL'')"
  from Strategy_options_after(4) [OF assms this]
  show "\<exists>t. to_string (get_own (caller_options h options) ''tenantID'') = Inr t \<and>
           get_own (heap c ! options_ref c) ''tokenURL'' =
             Str (''https://login.windows.net/'' @ t @ ''/oauth2/token?api-version=1.0'')"
    by (blast dest: get_own_Some)
qed

theorem Strategy_endpoint_urls_witness:
  "Strategy (\<lambda>options. None) [[(''tenantID'', Str ''T'')]] (Some 0) =
     Some (Inr \<lparr>heap = [[(''tenantID'', Str ''T''),
        (''authorizationURL'', Str ''https://login.windows.net/T/oauth2/authorize?api-version=1.0''),
        (''tokenURL'', Str ''https://login.windows.net/T/oauth2/token?api-version=1.0''),
        (''scopeSeparator'', Str '','')]],
       options_ref = 0, created = \<lparr>name = ''azure''\<rparr>\<rparr>) \<and>
   \<not> truthy (get_own (caller_options [[(''tenantID'', Str ''T'')]] (Some 0)) ''authorizationURL'') \<and>
   \<not> truthy (get_own (caller_options [[(''tenantID'', Str ''T'')]] (Some 0)) ''tokenURL'') \<and>
   to_string (get_own (caller_options [[(''tenantID'', Str ''T'')]] (Some 0)) ''tenantID'') = Inr ''T'' \<and>
   get_own [(''tenantID'', Str ''T''),
        (''authorizationURL'', Str ''https://login.windows.net/T/oauth2/authorize?api-version=1.0''),
        (''tokenURL'', Str ''https://login.windows.net/T/oauth2/token?api-version=1.0''),
        (''scopeSeparator'', Str '','')] ''authorizationURL'' =
     Str (''https://login.windows.net/'' @ ''T'' @ ''/oauth2/authorize?api-version=1.0'') \<and>
   get_own [(''tenantID'', Str ''T''),
        (''authorizationURL'', Str ''https://login.windows.net/T/oauth2/authorize?api-version=1.0''),
        (''tokenURL'', Str ''https://login.windows.net/T/oauth2/token?api-version=1.0''),
        (''scopeSeparator'', Str '','')] ''tokenURL'' =
     Str (''https://login.windows.net/'' @ ''T'' @ ''/oauth2/token?api-version=1.0'')"
proof -
  let ?c = "\<lparr>heap = [[(''tenantID'', Str ''T''),
        (''authorizationURL'', Str ''https://login.windows.net/T/oauth2/authorize?api-version=1.0''),
        (''tokenURL'', Str ''https://login.windows.net/T/oauth2/token?api-version=1.0''),
        (''scopeSeparator'', Str '','')]],
       options_ref = 0, created = \<lparr>name = ''azure''\<rparr>\<rparr>"
  have run: "Strategy (\<lambda>options. None) [[(''tenantID'', Str ''T'')]] (Some 0) = Some (Inr ?c)"
    by (simp add: Strategy_def or_empty_def assign_default_def derived_url_def str_plus_def
        get_own_def)
  have absent:
    "\<not> truthy (get_own (caller_options [[(''tenantID'', Str ''T'')]] (Some 0)) ''authorizationURL'')"
    "\<not> truthy (get_own (caller_options [[(''tenantID'', Str ''T'')]] (Some 0)) ''tokenURL'')"
    by (simp_all add: caller_options_def get_own_def)
  have tenant:
    "to_string (get_own (caller_options [[(''tenantID'', Str ''T'')]] (Some 0)) ''tenantID'') = Inr ''T''"
    by (simp add: caller_options_def get_own_def)
  from Strategy_endpoint_urls [OF run] absent tenant run show ?thesis
    by simp
qed

text \<open>
  C4 as stated fails: the options \<^verbatim>\<open>{tenantID: "T", authorizationURL: "", tokenURL: ""}\<close>
  supply both URLs explicitly, and construction does not keep them: it stores the derived
  URLs in their place.
\<close>

theorem Strategy_empty_url_replaced:
  "Strategy (\<lambda>options. None)
      [[(''tenantID'', Str ''T''), (''authorizationURL'', Str ''''), (''tokenURL'', Str '''')]]
      (Some 0) =
     Some (Inr \<lparr>heap = [[(''tenantID'', Str ''T''),
        (''authorizationURL'', Str ''https://login.windows.net/T/oauth2/authorize?api-version=1.0''),
        (''tokenURL'', Str ''https://login.windows.net/T/oauth2/token?api-version=1.0''),
        (''scopeSeparator'', Str '','')]],
       options_ref = 0, created = \<lparr>name = ''azure''\<rparr>\<rparr>)"
  by (simp add: Strategy_def or_empty_def assign_default_def derived_url_def str_plus_def
        get_own_def)

text \<open>
  C8, as amended. When construction succeeds, a \<^verbatim>\<open>scopeSeparator\<close> option that is truthy
  is kept unchanged; one that is absent or falsy, the empty string included, is replaced
  by \<^verbatim>\<open>,\<close>.
\<close>

theorem Strategy_scopeSeparator_default:
  assumes "Strategy D h options = Some (Inr c)"
  shows "get_own (heap c ! options_ref c) ''scopeSeparator'' =
     (if truthy (get_own (caller_options h options) ''scopeSeparator'')
      then get_own (caller_options h options) ''scopeSeparator'' else Str '','')"
  using Strategy_options_after(5) [OF assms] by (rule get_own_Some)

theorem Strategy_scopeSeparator_default_witness:
  "Strategy (\<lambda>options. None) [[(''tenantID'', Str ''T'')], [(''scopeSeparator'', Str '' '')]] (Some 0)
     = Some (Inr \<lparr>heap = [[(''tenantID'', Str ''T''),
        (''authorizationURL'', Str ''https://login.windows.net/T/oauth2/authorize?api-version=1.0''),
        (''tokenURL'', Str ''https://login.windows.net/T/oauth2/token?api-version=1.0''),
        (''scopeSeparator'', Str '','')], [(''scopeSeparator'', Str '' '')]],
       options_ref = 0, created = \<lparr>name = ''azure''\<rparr>\<rparr>) \<and>
   Strategy (\<lambda>options. None) [[(''tenantID'', Str ''T'')], [(''scopeSeparator'', Str '' '')]] (Some 1)
     = Some (Inr \<lparr>heap = [[(''tenantID'', Str ''T'')], [(''scopeSeparator'', Str '' ''),
        (''authorizationURL'', Str ''https://login.windows.net/undefined/oauth2/authorize?api-version=1.0''),
        (''tokenURL'', Str ''https://login.windows.net/undefined/oauth2/token?api-version=1.0'')]],
       options_ref = 1, created = \<lparr>name = ''azure''\<rparr>\<rparr>) \<and>
   get_own [(''tenantID'', Str ''T''),
        (''authorizationURL'', Str ''https://login.windows.net/T/oauth2/authorize?api-version=1.0''),
        (''tokenURL'', Str ''https://login.windows.net/T/oauth2/token?api-version=1.0''),
        (''scopeSeparator'', Str '','')] ''scopeSeparator'' = Str '','' \<and>
   get_own [(''scopeSeparator'', Str '' ''),
        (''authorizationURL'', Str ''https://login.windows.net/undefined/oauth2/authorize?api-version=1.0''),
        (''tokenURL'', Str ''https://login.windows.net/undefined/oauth2/token?api-version=1.0'')]
      ''scopeSeparator'' = Str '' ''"
proof -
  let ?h = "[[(''tenantID'', Str ''T'')], [(''scopeSeparator'', Str '' '')]]"
  let ?c0 = "\<lparr>heap = [[(''tenantID'', Str ''T''),
        (''authorizationURL'', Str ''https://login.windows.net/T/oauth2/authorize?api-version=1.0''),
        (''tokenURL'', Str ''https://login.windows.net/T/oauth2/token?api-version=1.0''),
        (''scopeSeparator'', Str '','')], [(''scopeSeparator'', Str '' '')]],
       options_ref = 0, created = \<lparr>name = ''azure''\<rparr>\<rparr>"
  let ?c1 = "\<lparr>heap = [[(''tenantID'', Str ''T'')], [(''scopeSeparator'', Str '' ''),
        (''authorizationURL'', Str ''https://login.windows.net/undefined/oauth2/authorize?api-version=1.0''),
        (''tokenURL'', Str ''https://login.windows.net/undefined/oauth2/token?api-version=1.0'')]],
       options_ref = 1, created = \<lparr>name = ''azure''\<rparr>\<rparr>"
  have run0: "Strategy (\<lambda>options. None) ?h (Some 0) = Some (Inr ?c0)"
    by (simp add: Strategy_def or_empty_def assign_default_def derived_url_def str_plus_def
        get_own_def)
  have run1: "Strategy (\<lambda>options. None) ?h (Some 1) = Some (Inr ?c1)"
    by (simp add: Strategy_def or_empty_def assign_default_def derived_url_def str_plus_def
        get_own_def)
  from Strategy_scopeSeparator_default [OF run0] Strategy_scopeSeparator_default [OF run1]
    run0 run1
  show ?thesis by (simp add: caller_options_def get_own_def)
qed

text \<open>
  C8 as stated fails: the options \<^verbatim>\<open>{tenantID: "T", scopeSeparator: ""}\<close> supply a
  separator explicitly, the empty string, and construction replaces it by \<^verbatim>\<open>,\<close>.
\<close>

theorem Strategy_empty_separator_replaced:
  "Strategy (\<lambda>options. None) [[(''tenantID'', Str ''T''), (''scopeSeparator'', Str '''')]] (Some 0) =
     Some (Inr \<lparr>heap = [[(''tenantID'', Str ''T''),
        (''scopeSeparator'', Str '',''),
        (''authorizationURL'', Str ''https://login.windows.net/T/oauth2/authorize?api-version=1.0''),
        (''tokenURL'', Str ''https://login.windows.net/T/oauth2/token?api-version=1.0'')]],
       options_ref = 0, created = \<lparr>name = ''azure''\<rparr>\<rparr>)"
  by (simp add: Strategy_def or_empty_def assign_default_def derived_url_def str_plus_def
        get_own_def)

text \<open>
  C9. The constructor writes to the object its caller passed. When construction succeeds on
  the object at address \<open>a\<close>, that same object is the one handed to the delegate, no
  object is allocated, and afterwards it has \<^verbatim>\<open>authorizationURL\<close>, \<^verbatim>\<open>tokenURL\<close> and
  \<^verbatim>\<open>scopeSeparator\<close> as own properties with truthy values: the caller's value where
  that was truthy, the derived URL or the default separator otherwise. Every other
  property of the object, and every other object of the store, is as before.
\<close>

theorem Strategy_mutates_options:
  assumes "Strategy D h (Some a) = Some (Inr c)"
  shows "a < length h \<and> options_ref c = a \<and> length (heap c) = length h \<and>
     (\<forall>b. b \<noteq> a \<longrightarrow> heap c ! b = h ! b) \<and>
     (\<forall>k. k \<noteq> ''authorizationURL'' \<and> k \<noteq> ''tokenURL'' \<and> k \<noteq> ''scopeSeparator'' \<longrightarrow>
          map_of (heap c ! a) k = map_of (h ! a) k) \<and>
     (\<exists>u. map_of (heap c ! a) ''authorizationURL'' = Some u \<and> truthy u \<and>
          (truthy (get_own (h ! a) ''authorizationURL'') \<longrightarrow> u = get_own (h ! a) ''authorizationURL'') \<and>
          (\<not> truthy (get_own (h ! a) ''authorizationURL'') \<longrightarrow>
             (\<exists>t. to_string (get_own (h ! a) ''tenantID'') = Inr t \<and>
                u = Str (''https://login.windows.net/'' @ t @ ''/oauth2/authorize?api-version=1.0'')))) \<and>
     (\<exists>u. map_of (heap c ! a) ''tokenURL'' = Some u \<and> truthy u \<and>
          (truthy (get_own (h ! a) ''tokenURL'') \<longrightarrow> u = get_own (h ! a) ''tokenURL'') \<and>
          (\<not> truthy (get_own (h ! a) ''tokenURL'') \<longrightarrow>
             (\<exists>t. to_string (get_own (h ! a) ''tenantID'') = Inr t \<and>
                u = Str (''https://login.windows.net/'' @ t @ ''/oauth2/token?api-version=1.0'')))) \<and>
     (\<exists>u. map_of (heap c ! a) ''scopeSeparator'' = Some u \<and> truthy u \<and>
          u = (if truthy (get_own (h ! a) ''scopeSeparator'')
               then get_own (h ! a) ''scopeSeparator'' else Str '',''))"
proof -
  note f = Strategy_frame [OF assms]
  note o = Strategy_options_after [OF assms, unfolded f(2) caller_options_def option.case]
  have au: "\<exists>u. map_of (heap c ! a) ''authorizationURL'' = Some u \<and> truthy u \<and>
          (truthy (get_own (h ! a) ''authorizationURL'') \<longrightarrow> u = get_own (h ! a) ''authorizationURL'') \<and>
          (\<not> truthy (get_own (h ! a) ''authorizationURL'') \<longrightarrow>
             (\<exists>t. to_string (get_own (h ! a) ''tenantID'') = Inr t \<and>
                u = Str (''https://login.windows.net/'' @ t @ ''/oauth2/authorize?api-version=1.0'')))"
  proof (cases "truthy (get_own (h ! a) ''authorizationURL'')")
    case True
    with o(1) show ?thesis by simp
  next
    case False
    from o(2) [OF False] False show ?thesis by auto
  qed
  have tu: "\<exists>u. map_of (heap c ! a) ''tokenURL'' = Some u \<and> truthy u \<and>
          (truthy (get_own (h ! a) ''tokenURL'') \<longrightarrow> u = get_own (h ! a) ''tokenURL'') \<and>
          (\<not> truthy (get_own (h ! a) ''tokenURL'') \<longrightarrow>
             (\<exists>t. to_string (get_own (h ! a) ''tenantID'') = Inr t \<and>
                u = Str (''https://login.windows.net/'' @ t @ ''/oauth2/token?api-version=1.0'')))"
  proof (cases "truthy (get_own (h ! a) ''tokenURL'')")
    case True
    with o(3) show ?thesis by simp
  next
    case False
    from o(4) [OF False] False show ?thesis by auto
  qed
  have ss: "\<exists>u. map_of (heap c ! a) ''scopeSeparator'' = Some u \<and> truthy u \<and>
          u = (if truthy (get_own (h ! a) ''scopeSeparator'')
               then get_own (h ! a) ''scopeSeparator'' else Str '','')"
    using o(5) by simp
  from f o(6) au tu ss show ?thesis by blast
qed

theorem Strategy_mutates_options_witness:
  "Strategy (\<lambda>options. None) [[(''tenantID'', Str ''T''), (''clientID'', Str ''id'')], []] (Some 0)
     = Some (Inr \<lparr>heap = [[(''tenantID'', Str ''T''), (''clientID'', Str ''id''),
        (''authorizationURL'', Str ''https://login.windows.net/T/oauth2/authorize?api-version=1.0''),
        (''tokenURL'', Str ''https://login.windows.net/T/oauth2/token?api-version=1.0''),
        (''scopeSeparator'', Str '','')], []],
       options_ref = 0, created = \<lparr>name = ''azure''\<rparr>\<rparr>) \<and>
   (0::nat) < length [[(''tenantID'', Str ''T''), (''clientID'', Str ''id'')], []]"
proof -
  let ?h = "[[(''tenantID'', Str ''T''), (''clientID'', Str ''id'')], []]"
  let ?c = "\<lparr>heap = [[(''tenantID'', Str ''T''), (''clientID'', Str ''id''),
        (''authorizationURL'', Str ''https://login.windows.net/T/oauth2/authorize?api-version=1.0''),
        (''tokenURL'', Str ''https://login.windows.net/T/oauth2/token?api-version=1.0''),
        (''scopeSeparator'', Str '','')], []],
       options_ref = 0, created = \<lparr>name = ''azure''\<rparr>\<rparr>"
  have run: "Strategy (\<lambda>options. None) ?h (Some 0) = Some (Inr ?c)"
    by (simp add: Strategy_def or_empty_def assign_default_def derived_url_def str_plus_def
        get_own_def)
  from Strategy_mutates_options [OF run] run show ?thesis by blast
qed

end
